theory Spec2Isabelle
  imports Main "HOL-Library.Char_ord" "HOL-Library.List_Lexorder"
begin

section \<open>RDF terms and the loaded graph\<close>

text \<open>
  The checker of \<^verbatim>\<open>course_eligibility_checker.py\<close> holds one graph of triples
  (\<^verbatim>\<open>self.g\<close>) and answers every question with one fixed SELECT query followed by a
  little Python. The terms of the graph are IRIs, blank nodes and literals; a literal
  carries its lexical form and either nothing, a language tag or a datatype. Two
  literals are the same term only when lexical form, language tag and datatype all
  agree, so \<open>Literal ''B'' Plain\<close> and \<open>Literal ''B'' (Lang ''en'')\<close> are different
  terms with the same string form. The datatypes told apart are \<^verbatim>\<open>xsd:string\<close>,
  \<^verbatim>\<open>xsd:integer\<close> and, under \<open>Datatype\<close>, any datatype IRI for which the library has
  no conversion of the lexical form into a Python value.

  Scope of the embedding: strings are ASCII; the query engine evaluates each query by
  the SPARQL 1.1 algebra; a string spliced into a query text (\<^verbatim>\<open>"{course_code}"\<close>,
  \<^verbatim>\<open>:{student_id}\<close>) is one that the SPARQL grammar reads back as that very literal or
  local name (no quote, backslash or line break in a course code).
\<close>

datatype tag = Plain | Lang string | XSD_string | XSD_integer | Datatype string

datatype node = URIRef string | BNode string | Literal string tag

type_synonym triple = "node \<times> node \<times> node"

type_synonym graph = "triple list"

text \<open>\<^verbatim>\<open>str(term)\<close>: every term is a Python string, the IRI, the blank node's
  identifier or the literal's lexical form.\<close>

fun str :: "node \<Rightarrow> string" where
  "str (URIRef u) = u"
| "str (BNode b) = b"
| "str (Literal s t) = s"

subsection \<open>Python's \<^verbatim>\<open>int\<close> and \<^verbatim>\<open>bool\<close> on a term\<close>

datatype error = ValueError

definition py_space :: "char \<Rightarrow> bool" where
  "py_space c = (of_char c \<in> set [9, 10, 11, 12, 13, 28, 29, 30, 31, 32 :: nat])"

definition py_digit :: "char \<Rightarrow> bool" where
  "py_digit c = (48 \<le> (of_char c :: nat) \<and> (of_char c :: nat) \<le> 57)"

definition digit_val :: "char \<Rightarrow> nat" where
  "digit_val c = of_char c - 48"

text \<open>The digits after the first one: single underscores may separate digits.\<close>

fun py_digits :: "string \<Rightarrow> nat \<Rightarrow> nat option" where
  "py_digits [] acc = Some acc"
| "py_digits [c] acc = (if py_digit c then Some (10 * acc + digit_val c) else None)"
| "py_digits (c # d # cs) acc =
     (if py_digit c then py_digits (d # cs) (10 * acc + digit_val c)
      else if c = CHR ''_'' \<and> py_digit d then py_digits cs (10 * acc + digit_val d)
      else None)"

definition py_unsigned :: "string \<Rightarrow> nat option" where
  "py_unsigned s =
     (case s of [] \<Rightarrow> None
      | c # cs \<Rightarrow> if py_digit c then py_digits cs (digit_val c) else None)"

definition strip :: "string \<Rightarrow> string" where
  "strip s = rev (dropWhile py_space (rev (dropWhile py_space s)))"

text \<open>\<^verbatim>\<open>int(s)\<close> for a string: surrounding white space, an optional sign, decimal
  digits; anything else raises \<^verbatim>\<open>ValueError\<close>. (The interpreter's bound on the
  number of digits it converts is left out; the theorems below use \<open>py_int\<close> only
  through whether it returns a number.)\<close>

definition py_int :: "string \<Rightarrow> error + int" where
  "py_int s =
     (case strip s of
        [] \<Rightarrow> Inl ValueError
      | c # cs \<Rightarrow>
          if c = CHR ''-'' then
            (case py_unsigned cs of None \<Rightarrow> Inl ValueError | Some n \<Rightarrow> Inr (- int n))
          else if c = CHR ''+'' then
            (case py_unsigned cs of None \<Rightarrow> Inl ValueError | Some n \<Rightarrow> Inr (int n))
          else
            (case py_unsigned (c # cs) of None \<Rightarrow> Inl ValueError | Some n \<Rightarrow> Inr (int n)))"

text \<open>\<^verbatim>\<open>bool(term)\<close>, as in \<^verbatim>\<open>x if x else 'N/A'\<close>: a literal whose datatype has a
  value conversion is judged by its converted value (an integer literal is false when it
  is zero), every other term by its string being non-empty.\<close>

fun py_bool :: "node \<Rightarrow> bool" where
  "py_bool (Literal s XSD_integer) =
     (case py_int s of Inr n \<Rightarrow> n \<noteq> 0 | Inl e \<Rightarrow> s \<noteq> [])"
| "py_bool x = (str x \<noteq> [])"

subsection \<open>Vocabulary\<close>

definition ONTO :: string where
  "ONTO = ''http://www.semanticweb.org/university/ontology#''"

definition onto :: "string \<Rightarrow> node" where
  "onto local_name = URIRef (ONTO @ local_name)"

definition rdf_type :: node where
  "rdf_type = URIRef ''http://www.w3.org/1999/02/22-rdf-syntax-ns#type''"

section \<open>Query evaluation\<close>

text \<open>A triple pattern with subject and predicate given, and one with predicate and
  object given: one solution per matching triple, in the order of the graph.\<close>

definition objects :: "graph \<Rightarrow> node \<Rightarrow> node \<Rightarrow> node list" where
  "objects G s p = map (\<lambda>(s', p', ob). ob) (filter (\<lambda>(s', p', ob). s' = s \<and> p' = p) G)"

definition subjects :: "graph \<Rightarrow> node \<Rightarrow> node \<Rightarrow> node list" where
  "subjects G p ob = map (\<lambda>(s, p', ob'). s) (filter (\<lambda>(s, p', ob'). p' = p \<and> ob' = ob) G)"

text \<open>The property path \<^verbatim>\<open>p+\<close>: the terms reached from a start term in one or more
  steps, each once. The search keeps the terms still to visit and those already
  visited, and so ends on a cyclic graph too.\<close>

function path_closure :: "graph \<Rightarrow> node \<Rightarrow> node list \<Rightarrow> node list \<Rightarrow> node list" where
  "path_closure G p [] seen = seen"
| "path_closure G p (x # todo) seen =
     (if x \<in> set seen then path_closure G p todo seen
      else path_closure G p (objects G x p @ todo) (seen @ [x]))"
  by pat_completeness auto

lemma objects_in_graph: "y \<in> set (objects G x p) \<longleftrightarrow> (x, p, y) \<in> set G"
  by (force simp: objects_def)

lemma subjects_in_graph: "x \<in> set (subjects G p y) \<longleftrightarrow> (x, p, y) \<in> set G"
  by (force simp: subjects_def)

definition unvisited :: "graph \<Rightarrow> node list \<Rightarrow> node list \<Rightarrow> node set" where
  "unvisited G todo seen = (set (map (\<lambda>(s, p, ob). ob) G) \<union> set todo) - set seen"

lemma finite_unvisited: "finite (unvisited G todo seen)"
  by (simp add: unvisited_def)

lemma unvisited_skip: "unvisited G todo seen \<subseteq> unvisited G (x # todo) seen"
  by (auto simp: unvisited_def)

lemma unvisited_visit:
  assumes "x \<notin> set seen"
  shows "unvisited G (objects G x p @ todo) (seen @ [x]) \<subset> unvisited G (x # todo) seen"
proof -
  have "x \<in> unvisited G (x # todo) seen"
    using assms by (simp add: unvisited_def)
  moreover have "x \<notin> unvisited G (objects G x p @ todo) (seen @ [x])"
    by (simp add: unvisited_def)
  moreover have "unvisited G (objects G x p @ todo) (seen @ [x]) \<subseteq> unvisited G (x # todo) seen"
    by (force simp: unvisited_def objects_in_graph)
  ultimately show ?thesis by blast
qed

termination path_closure
proof (relation "measures [\<lambda>(G, p, todo, seen). card (unvisited G todo seen),
                           \<lambda>(G, p, todo, seen). length todo]", goal_cases)
  case 1
  show ?case by simp
next
  case (2 G p x todo seen)
  have "card (unvisited G todo seen) \<le> card (unvisited G (x # todo) seen)"
    by (rule card_mono[OF finite_unvisited unvisited_skip])
  then show ?case by auto
next
  case (3 G p x todo seen)
  then have "card (unvisited G (objects G x p @ todo) (seen @ [x]))
           < card (unvisited G (x # todo) seen)"
    by (intro psubset_card_mono finite_unvisited unvisited_visit)
  then show ?case by simp
qed

definition path_plus :: "graph \<Rightarrow> node \<Rightarrow> node \<Rightarrow> node list" where
  "path_plus G p x = path_closure G p (objects G x p) []"

subsection \<open>The six SELECT queries\<close>

text \<open>Each fixed query text is given by the solutions the engine returns for it, as a
  function of the graph. A basic graph pattern is the join of its triple patterns,
  \<^verbatim>\<open>DISTINCT\<close> drops repeated solutions.\<close>

definition select_courses_taken :: "string \<Rightarrow> graph \<Rightarrow> node list" where
  "select_courses_taken student_id G =
     [courseCode.
        course \<leftarrow> objects G (onto student_id) (onto ''hasTaken''),
        courseCode \<leftarrow> objects G course (onto ''courseCode'')]"

definition select_prerequisites :: "string \<Rightarrow> graph \<Rightarrow> node list" where
  "select_prerequisites course_code G =
     remdups
       [prereqCode.
          course \<leftarrow> subjects G (onto ''courseCode'') (Literal course_code Plain),
          prereq \<leftarrow> path_plus G (onto ''hasPrerequisite'') course,
          prereqCode \<leftarrow> objects G prereq (onto ''courseCode'')]"

definition select_direct_prerequisites :: "string \<Rightarrow> graph \<Rightarrow> node list" where
  "select_direct_prerequisites course_code G =
     [prereqCode.
        course \<leftarrow> subjects G (onto ''courseCode'') (Literal course_code Plain),
        prereq \<leftarrow> objects G course (onto ''hasPrerequisite''),
        prereqCode \<leftarrow> objects G prereq (onto ''courseCode'')]"

definition select_courses :: "graph \<Rightarrow> (node \<times> node \<times> node) list" where
  "select_courses G =
     [(courseCode, courseName, cr).
        course \<leftarrow> subjects G rdf_type (onto ''Course''),
        courseCode \<leftarrow> objects G course (onto ''courseCode''),
        courseName \<leftarrow> objects G course (onto ''courseName''),
        cr \<leftarrow> objects G course (onto ''creditHours'')]"

text \<open>The workload query: the solutions of its pattern, grouped by
  \<^verbatim>\<open>(?profName, ?deptName)\<close>, each group with the number of its solutions
  (\<^verbatim>\<open>COUNT(?course)\<close>; \<^verbatim>\<open>?course\<close> is bound in every solution), ordered by that
  number, largest first. A graph with no solution gives no group.\<close>

definition workload_solutions :: "graph \<Rightarrow> (node \<times> node \<times> node) list" where
  "workload_solutions G =
     [(profName, deptName, course).
        prof \<leftarrow> subjects G rdf_type (onto ''Professor''),
        profName \<leftarrow> objects G prof (onto ''professorName''),
        dept \<leftarrow> objects G prof (onto ''worksInDepartment''),
        deptName \<leftarrow> objects G dept (onto ''departmentName''),
        course \<leftarrow> subjects G (onto ''taughtBy'') prof]"

definition group_key :: "node \<times> node \<times> node \<Rightarrow> node \<times> node" where
  "group_key sol = (fst sol, fst (snd sol))"

definition group_count :: "(node \<times> node \<times> node) list \<Rightarrow> ((node \<times> node) \<times> nat) list" where
  "group_count sols =
     map (\<lambda>k. (k, length (filter (\<lambda>sol. group_key sol = k) sols)))
         (remdups (map group_key sols))"

definition order_by_desc :: "('a \<times> nat) list \<Rightarrow> ('a \<times> nat) list" where
  "order_by_desc rows = sort_key (\<lambda>row. - int (snd row)) rows"

definition select_workload :: "graph \<Rightarrow> ((node \<times> node) \<times> nat) list" where
  "select_workload G = order_by_desc (group_count (workload_solutions G))"

text \<open>\<^verbatim>\<open>OPTIONAL\<close>: the solutions of the optional part when there are any, else one
  solution that leaves its variable unbound.\<close>

definition optional :: "'a list \<Rightarrow> 'a option list" where
  "optional xs = (if xs = [] then [None] else map Some xs)"

definition select_course_info ::
    "string \<Rightarrow> graph \<Rightarrow> (node \<times> node \<times> node option \<times> node option) list" where
  "select_course_info course_code G =
     [(courseName, cr, profName, deptName).
        course \<leftarrow> subjects G (onto ''courseCode'') (Literal course_code Plain),
        courseName \<leftarrow> objects G course (onto ''courseName''),
        cr \<leftarrow> objects G course (onto ''creditHours''),
        profName \<leftarrow> optional
          [pn. prof \<leftarrow> objects G course (onto ''taughtBy''),
               pn \<leftarrow> objects G prof (onto ''professorName'')],
        deptName \<leftarrow> optional
          [dn. dept \<leftarrow> objects G course (onto ''belongsToDepartment''),
               dn \<leftarrow> objects G dept (onto ''departmentName'')]]"

section \<open>The checker\<close>

text \<open>The object has one field, the graph. \<^verbatim>\<open>__init__\<close> parses the file into it;
  the graph is a set of triples, so a triple stated twice is stored once. Every method
  takes the object and returns it next to its result; \<^verbatim>\<open>self.g.query(...)\<close> reads the
  graph.\<close>

record checker =
  g :: graph

definition init :: "triple list \<Rightarrow> checker" where
  "init triples = \<lparr>g = remdups triples\<rparr>"

definition query :: "(graph \<Rightarrow> 'a) \<Rightarrow> checker \<Rightarrow> 'a \<times> checker" where
  "query q self = (q (g self), self)"

definition get_courses_taken :: "string \<Rightarrow> checker \<Rightarrow> string set \<times> checker" where
  "get_courses_taken student_id self =
     (let (results, self) = query (select_courses_taken student_id) self
      in (set (map str results), self))"

definition get_prerequisites :: "string \<Rightarrow> checker \<Rightarrow> string list \<times> checker" where
  "get_prerequisites course_code self =
     (let (results, self) = query (select_prerequisites course_code) self
      in (map str results, self))"

definition get_direct_prerequisites :: "string \<Rightarrow> checker \<Rightarrow> string list \<times> checker" where
  "get_direct_prerequisites course_code self =
     (let (results, self) = query (select_direct_prerequisites course_code) self
      in (map str results, self))"

definition can_enroll ::
    "string \<Rightarrow> string \<Rightarrow> checker \<Rightarrow> (bool \<times> string list) \<times> checker" where
  "can_enroll student_id course_code self =
     (let (courses_taken, self) = get_courses_taken student_id self;
          (prereq_list, self) = get_prerequisites course_code self;
          prerequisites = set prereq_list
      in if prerequisites = {} then ((True, []), self)
         else let missing = prerequisites - courses_taken
              in ((missing = {}, sorted_list_of_set missing), self))"

record course_entry =
  code :: string
  name :: string
  credits :: int

text \<open>The loop of \<^verbatim>\<open>get_available_courses\<close> over the rows of the course query;
  \<^verbatim>\<open>int(row.credits)\<close> raises for a credit value that is no integer.\<close>

fun available_loop ::
    "string \<Rightarrow> string set \<Rightarrow> (node \<times> node \<times> node) list \<Rightarrow> course_entry list \<Rightarrow> checker
      \<Rightarrow> (error + course_entry list) \<times> checker" where
  "available_loop student_id courses_taken [] available self = (Inr available, self)"
| "available_loop student_id courses_taken ((courseCode, courseName, cr) # rows) available self =
     (let course_code = str courseCode
      in if course_code \<in> courses_taken
         then available_loop student_id courses_taken rows available self
         else
           let ((can_take, missing), self) = can_enroll student_id course_code self
           in if can_take
              then (case py_int (str cr) of
                      Inl e \<Rightarrow> (Inl e, self)
                    | Inr n \<Rightarrow>
                        available_loop student_id courses_taken rows
                          (available @ [\<lparr>code = course_code, name = str courseName, credits = n\<rparr>])
                          self)
              else available_loop student_id courses_taken rows available self)"

definition get_available_courses ::
    "string \<Rightarrow> checker \<Rightarrow> (error + course_entry list) \<times> checker" where
  "get_available_courses student_id self =
     (let (results, self) = query select_courses self;
          (courses_taken, self) = get_courses_taken student_id self
      in available_loop student_id courses_taken results [] self)"

record workload_entry =
  professor :: string
  department :: string
  courses :: int

definition workload_row :: "(node \<times> node) \<times> nat \<Rightarrow> workload_entry" where
  "workload_row row =
     \<lparr>professor = str (fst (fst row)), department = str (snd (fst row)),
      courses = int (snd row)\<rparr>"

definition get_professor_workload :: "checker \<Rightarrow> workload_entry list \<times> checker" where
  "get_professor_workload self =
     (let (results, self) = query select_workload self
      in (map workload_row results, self))"

record course_info = course_entry +
  professor :: string
  department :: string
  direct_prerequisites :: "string list"
  all_prerequisites :: "string list"

text \<open>\<^verbatim>\<open>str(x) if x else 'N/A'\<close> on a variable that may be unbound.\<close>

definition or_na :: "node option \<Rightarrow> string" where
  "or_na x = (case x of None \<Rightarrow> ''N/A'' | Some t \<Rightarrow> if py_bool t then str t else ''N/A'')"

definition get_course_info ::
    "string \<Rightarrow> checker \<Rightarrow> (error + course_info option) \<times> checker" where
  "get_course_info course_code self =
     (let (results, self) = query (select_course_info course_code) self
      in case results of
           [] \<Rightarrow> (Inr None, self)
         | (courseName, cr, profName, deptName) # rest \<Rightarrow>
             let (direct_prereqs, self) = get_direct_prerequisites course_code self;
                 (all_prereqs, self) = get_prerequisites course_code self
             in (case py_int (str cr) of
                   Inl e \<Rightarrow> (Inl e, self)
                 | Inr n \<Rightarrow>
                     (Inr (Some \<lparr>code = course_code, name = str courseName, credits = n,
                                 professor = or_na profName, department = or_na deptName,
                                 direct_prerequisites = direct_prereqs,
                                 all_prerequisites = all_prereqs\<rparr>),
                      self)))"

text \<open>A call of one of the seven query methods, its answer, and a sequence of calls
  on one checker, each call handed the object the previous one left.\<close>

datatype call =
    Get_courses_taken string
  | Get_prerequisites string
  | Get_direct_prerequisites string
  | Can_enroll string string
  | Get_available_courses string
  | Get_professor_workload
  | Get_course_info string

datatype answer =
    Taken "string set"
  | Codes "string list"
  | Eligibility "bool \<times> string list"
  | Available "error + course_entry list"
  | Workload "workload_entry list"
  | Info "error + course_info option"

fun invoke :: "call \<Rightarrow> checker \<Rightarrow> answer \<times> checker" where
  "invoke (Get_courses_taken student_id) self = apfst Taken (get_courses_taken student_id self)"
| "invoke (Get_prerequisites course_code) self = apfst Codes (get_prerequisites course_code self)"
| "invoke (Get_direct_prerequisites course_code) self =
     apfst Codes (get_direct_prerequisites course_code self)"
| "invoke (Can_enroll student_id course_code) self =
     apfst Eligibility (can_enroll student_id course_code self)"
| "invoke (Get_available_courses student_id) self =
     apfst Available (get_available_courses student_id self)"
| "invoke Get_professor_workload self = apfst Workload (get_professor_workload self)"
| "invoke (Get_course_info course_code) self = apfst Info (get_course_info course_code self)"

fun run :: "call list \<Rightarrow> checker \<Rightarrow> answer list \<times> checker" where
  "run [] self = ([], self)"
| "run (c # calls) self =
     (let (a, self) = invoke c self;
          (answers, self) = run calls self
      in (a # answers, self))"

section \<open>The notions of the specification\<close>

text \<open>The relation a predicate \<open>p\<close> draws between the terms of the graph.\<close>

definition edge :: "graph \<Rightarrow> node \<Rightarrow> (node \<times> node) set" where
  "edge G p = {(x, y). (x, p, y) \<in> set G}"

text \<open>The prerequisite codes as the specification words them: the \<^verbatim>\<open>courseCode\<close>
  values of the courses reached from a course carrying the given code by one or more
  (respectively exactly one) \<^verbatim>\<open>hasPrerequisite\<close> steps.\<close>

definition prerequisite_codes :: "graph \<Rightarrow> string \<Rightarrow> node set" where
  "prerequisite_codes G course_code =
     {prereqCode. \<exists>course prereq.
        (course, onto ''courseCode'', Literal course_code Plain) \<in> set G \<and>
        (course, prereq) \<in> (edge G (onto ''hasPrerequisite''))\<^sup>+ \<and>
        (prereq, onto ''courseCode'', prereqCode) \<in> set G}"

definition direct_prerequisite_codes :: "graph \<Rightarrow> string \<Rightarrow> node set" where
  "direct_prerequisite_codes G course_code =
     {prereqCode. \<exists>course prereq.
        (course, onto ''courseCode'', Literal course_code Plain) \<in> set G \<and>
        (course, onto ''hasPrerequisite'', prereq) \<in> set G \<and>
        (prereq, onto ''courseCode'', prereqCode) \<in> set G}"




definition eligible :: "string \<Rightarrow> string set \<Rightarrow> checker \<Rightarrow> node \<times> node \<times> node \<Rightarrow> bool" where
  "eligible student_id courses_taken self row =
     (str (fst row) \<notin> courses_taken \<and> fst (fst (can_enroll student_id (str (fst row)) self)))"

definition entry_of :: "node \<times> node \<times> node \<Rightarrow> course_entry" where
  "entry_of row =
     \<lparr>code = str (fst row), name = str (fst (snd row)),
      credits = projr (py_int (str (snd (snd row))))\<rparr>"

text \<open>The groups of the workload query, the courses of a graph, and a graph in which
  staffing is complete: no triple is stored twice, every course has exactly one
  \<^verbatim>\<open>taughtBy\<close> professor, and whatever is \<^verbatim>\<open>taughtBy\<close> someone is a course whose
  professor is typed \<^verbatim>\<open>Professor\<close> and has exactly one name and exactly one
  department, which has exactly one name.\<close>

definition workload_groups :: "graph \<Rightarrow> (node \<times> node) set" where
  "workload_groups G =
     {(profName, deptName). \<exists>prof dept course.
        (prof, rdf_type, onto ''Professor'') \<in> set G \<and>
        (prof, onto ''professorName'', profName) \<in> set G \<and>
        (prof, onto ''worksInDepartment'', dept) \<in> set G \<and>
        (dept, onto ''departmentName'', deptName) \<in> set G \<and>
        (course, onto ''taughtBy'', prof) \<in> set G}"

definition all_courses :: "graph \<Rightarrow> node set" where
  "all_courses G = {course. (course, rdf_type, onto ''Course'') \<in> set G}"

definition staffed :: "graph \<Rightarrow> bool" where
  "staffed G =
     (distinct G
      \<and> (\<forall>course\<in>set (subjects G rdf_type (onto ''Course'')).
            length (objects G course (onto ''taughtBy'')) = 1)
      \<and> (\<forall>(course, p, prof)\<in>set G. p = onto ''taughtBy'' \<longrightarrow>
            course \<in> set (subjects G rdf_type (onto ''Course'')) \<and>
            prof \<in> set (subjects G rdf_type (onto ''Professor'')) \<and>
            length (objects G prof (onto ''professorName'')) = 1 \<and>
            length (objects G prof (onto ''worksInDepartment'')) = 1 \<and>
            (\<forall>dept\<in>set (objects G prof (onto ''worksInDepartment'')).
               length (objects G dept (onto ''departmentName'')) = 1)))"

section \<open>Example graphs\<close>

text \<open>A small catalogue: three courses in a prerequisite chain, two professors of one
  department, and a student who has completed the first course.\<close>

definition demo_triples :: "triple list" where
  "demo_triples =
     [(onto ''C1'', rdf_type, onto ''Course''),
      (onto ''C1'', onto ''courseCode'', Literal ''CS-101'' Plain),
      (onto ''C1'', onto ''courseName'', Literal ''Programming'' Plain),
      (onto ''C1'', onto ''creditHours'', Literal ''3'' XSD_integer),
      (onto ''C1'', onto ''taughtBy'', onto ''P1''),
      (onto ''C2'', rdf_type, onto ''Course''),
      (onto ''C2'', onto ''courseCode'', Literal ''CS-201'' Plain),
      (onto ''C2'', onto ''courseName'', Literal ''Algorithms'' Plain),
      (onto ''C2'', onto ''creditHours'', Literal ''4'' XSD_integer),
      (onto ''C2'', onto ''taughtBy'', onto ''P1''),
      (onto ''C2'', onto ''belongsToDepartment'', onto ''D1''),
      (onto ''C2'', onto ''hasPrerequisite'', onto ''C1''),
      (onto ''C3'', rdf_type, onto ''Course''),
      (onto ''C3'', onto ''courseCode'', Literal ''CS-301'' Plain),
      (onto ''C3'', onto ''courseName'', Literal ''Compilers'' Plain),
      (onto ''C3'', onto ''creditHours'', Literal ''3'' XSD_integer),
      (onto ''C3'', onto ''taughtBy'', onto ''P2''),
      (onto ''C3'', onto ''hasPrerequisite'', onto ''C2''),
      (onto ''P1'', rdf_type, onto ''Professor''),
      (onto ''P1'', onto ''professorName'', Literal ''Ada'' Plain),
      (onto ''P1'', onto ''worksInDepartment'', onto ''D1''),
      (onto ''P2'', rdf_type, onto ''Professor''),
      (onto ''P2'', onto ''professorName'', Literal ''Bob'' Plain),
      (onto ''P2'', onto ''worksInDepartment'', onto ''D1''),
      (onto ''D1'', onto ''departmentName'', Literal ''CS'' Plain),
      (onto ''S1'', onto ''hasTaken'', onto ''C1'')]"

definition demo :: checker where
  "demo = init demo_triples"





text \<open>Two courses, one of them taught by nobody.\<close>

definition untaught_course :: checker where
  "untaught_course = init
     [(onto ''C1'', rdf_type, onto ''Course''),
      (onto ''C1'', onto ''taughtBy'', onto ''P1''),
      (onto ''C2'', rdf_type, onto ''Course''),
      (onto ''P1'', rdf_type, onto ''Professor''),
      (onto ''P1'', onto ''professorName'', Literal ''Ada'' Plain),
      (onto ''P1'', onto ''worksInDepartment'', onto ''D1''),
      (onto ''D1'', onto ''departmentName'', Literal ''CS'' Plain)]"

section \<open>The property path is the transitive closure\<close>

lemma set_objects: "set (objects G x p) = edge G p `` {x}"
  by (auto simp: edge_def objects_in_graph)

lemma path_closure_sound:
  "set (path_closure G p todo seen) \<subseteq> set seen \<union> (edge G p)\<^sup>* `` set todo"
proof (induction G p todo seen rule: path_closure.induct)
  case (1 G p seen)
  show ?case by simp
next
  case (2 G p x todo seen)
  show ?case
  proof (cases "x \<in> set seen")
    case True
    with 2 show ?thesis by auto
  next
    case False
    have "(edge G p)\<^sup>* `` set (objects G x p) \<subseteq> (edge G p)\<^sup>* `` {x}"
      unfolding set_objects by (auto intro: converse_rtrancl_into_rtrancl)
    with False 2 show ?thesis by auto
  qed
qed

lemma path_closure_seen: "set seen \<subseteq> set (path_closure G p todo seen)"
  by (induction G p todo seen rule: path_closure.induct) auto

lemma path_closure_todo: "set todo \<subseteq> set (path_closure G p todo seen)"
proof (induction G p todo seen rule: path_closure.induct)
  case (1 G p seen)
  show ?case by simp
next
  case (2 G p x todo seen)
  show ?case
  proof (cases "x \<in> set seen")
    case True
    with 2 path_closure_seen[of seen G p todo] show ?thesis by auto
  next
    case False
    with 2 path_closure_seen[of "seen @ [x]" G p "objects G x p @ todo"] show ?thesis by auto
  qed
qed

lemma path_closure_closed:
  "\<forall>y\<in>set seen. edge G p `` {y} \<subseteq> set seen \<union> set todo \<Longrightarrow>
   y \<in> set (path_closure G p todo seen) \<Longrightarrow>
   edge G p `` {y} \<subseteq> set (path_closure G p todo seen)"
proof (induction G p todo seen rule: path_closure.induct)
  case (1 G p seen)
  then show ?case by auto
next
  case (2 G p x todo seen)
  show ?case
  proof (cases "x \<in> set seen")
    case True
    have "\<forall>y\<in>set seen. edge G p `` {y} \<subseteq> set seen \<union> set todo"
      using "2.prems"(1) True by auto
    with 2 True show ?thesis by simp
  next
    case False
    have "\<forall>y\<in>set (seen @ [x]). edge G p `` {y} \<subseteq> set (seen @ [x]) \<union> set (objects G x p @ todo)"
      using "2.prems"(1) by (auto simp: set_objects)
    with 2 False show ?thesis by simp
  qed
qed

lemma path_closure_distinct: "distinct seen \<Longrightarrow> distinct (path_closure G p todo seen)"
  by (induction G p todo seen rule: path_closure.induct) auto

lemma path_closure_complete:
  assumes "x \<in> set todo" and "(x, y) \<in> (edge G p)\<^sup>*"
  shows "y \<in> set (path_closure G p todo [])"
  using assms(2)
proof (induction rule: rtrancl_induct)
  case base
  show ?case using assms(1) path_closure_todo by blast
next
  case (step y z)
  have "edge G p `` {y} \<subseteq> set (path_closure G p todo [])"
    by (rule path_closure_closed) (use step in auto)
  with step show ?case by auto
qed

lemma set_path_plus: "set (path_plus G p x) = (edge G p)\<^sup>+ `` {x}"
proof -
  have "set (path_plus G p x) = (edge G p)\<^sup>* `` (edge G p `` {x})"
    unfolding path_plus_def
    using path_closure_sound[of G p "objects G x p" "[]"] path_closure_complete[of _ "objects G x p" _ G p]
    by (auto simp: set_objects)
  also have "\<dots> = (edge G p)\<^sup>+ `` {x}"
    by (simp add: trancl_unfold_left relcomp_Image)
  finally show ?thesis .
qed

lemma distinct_path_plus: "distinct (path_plus G p x)"
  by (simp add: path_plus_def path_closure_distinct)

section \<open>What the queries and the methods return\<close>

lemma get_courses_taken_eq:
  "get_courses_taken student_id self = (set (map str (select_courses_taken student_id (g self))), self)"
  by (simp add: get_courses_taken_def query_def)

lemma get_prerequisites_eq:
  "get_prerequisites course_code self = (map str (select_prerequisites course_code (g self)), self)"
  by (simp add: get_prerequisites_def query_def)

lemma get_direct_prerequisites_eq:
  "get_direct_prerequisites course_code self =
     (map str (select_direct_prerequisites course_code (g self)), self)"
  by (simp add: get_direct_prerequisites_def query_def)

lemma can_enroll_eq:
  "can_enroll student_id course_code self =
     (let missing = set (fst (get_prerequisites course_code self))
                      - fst (get_courses_taken student_id self)
      in ((missing = {}, sorted_list_of_set missing), self))"
  by (simp add: can_enroll_def get_courses_taken_eq get_prerequisites_eq Let_def)

lemma set_subjects: "set (subjects G p ob) = {s. (s, p, ob) \<in> set G}"
  using subjects_in_graph by blast

lemma set_objects_eq: "set (objects G s p) = {ob. (s, p, ob) \<in> set G}"
  using objects_in_graph by blast

lemma set_join3:
  "set [z. x \<leftarrow> subjects G p a, y \<leftarrow> f x, z \<leftarrow> objects G y q] =
     {z. \<exists>x y. (x, p, a) \<in> set G \<and> y \<in> set (f x) \<and> (y, q, z) \<in> set G}"
proof -
  have "set [z. x \<leftarrow> subjects G p a, y \<leftarrow> f x, z \<leftarrow> objects G y q] =
        (\<Union>x\<in>{s. (s, p, a) \<in> set G}. \<Union>y\<in>set (f x). {z. (y, q, z) \<in> set G})"
    by (simp add: set_subjects set_objects_eq)
  also have "\<dots> = {z. \<exists>x y. (x, p, a) \<in> set G \<and> y \<in> set (f x) \<and> (y, q, z) \<in> set G}"
    by blast
  finally show ?thesis .
qed

lemma set_select_prerequisites:
  "set (select_prerequisites course_code G) = prerequisite_codes G course_code"
  by (simp only: select_prerequisites_def prerequisite_codes_def set_remdups set_join3
      set_path_plus Image_singleton_iff)


lemma set_select_direct_prerequisites:
  "set (select_direct_prerequisites course_code G) = direct_prerequisite_codes G course_code"
  by (simp only: select_direct_prerequisites_def direct_prerequisite_codes_def set_join3
      objects_in_graph)

lemma direct_subset_transitive:
  "direct_prerequisite_codes G course_code \<subseteq> prerequisite_codes G course_code"
  unfolding direct_prerequisite_codes_def prerequisite_codes_def edge_def by blast





lemma get_course_info_eq:
  "get_course_info course_code self =
     (case select_course_info course_code (g self) of
        [] \<Rightarrow> (Inr None, self)
      | (courseName, cr, profName, deptName) # rest \<Rightarrow>
          (case py_int (str cr) of
             Inl e \<Rightarrow> (Inl e, self)
           | Inr n \<Rightarrow>
               (Inr (Some \<lparr>code = course_code, name = str courseName, credits = n,
                           professor = or_na profName, department = or_na deptName,
                           direct_prerequisites = fst (get_direct_prerequisites course_code self),
                           all_prerequisites = fst (get_prerequisites course_code self)\<rparr>),
                self)))"
  by (simp add: get_course_info_def query_def get_direct_prerequisites_eq get_prerequisites_eq
      split: list.splits sum.splits)




lemma can_enroll_frame: "snd (can_enroll student_id course_code self) = self"
  by (simp add: can_enroll_eq Let_def)

lemma available_loop_step:
  "available_loop student_id courses_taken (row # rows) available self =
     (if eligible student_id courses_taken self row
      then (case py_int (str (snd (snd row))) of
              Inl e \<Rightarrow> (Inl ValueError, self)
            | Inr n \<Rightarrow>
                available_loop student_id courses_taken rows
                  (available @ [\<lparr>code = str (fst row), name = str (fst (snd row)), credits = n\<rparr>])
                  self)
      else available_loop student_id courses_taken rows available self)"
proof -
  obtain courseCode courseName cr where row: "row = (courseCode, courseName, cr)"
    by (cases row)
  obtain can_take missing where
    can: "can_enroll student_id (str courseCode) self = ((can_take, missing), self)"
    by (metis can_enroll_frame prod.collapse)
  show ?thesis
    by (cases "py_int (str cr)") (auto simp: row eligible_def can Let_def intro: error.exhaust)
qed

lemma available_loop_eq:
  "available_loop student_id courses_taken rows available self =
     (if \<forall>row\<in>set (filter (eligible student_id courses_taken self) rows).
           \<exists>n. py_int (str (snd (snd row))) = Inr n
      then Inr (available @ map entry_of (filter (eligible student_id courses_taken self) rows))
      else Inl ValueError, self)"
proof (induction rows arbitrary: available)
  case Nil
  show ?case by simp
next
  case (Cons row rows)
  show ?case
  proof (cases "eligible student_id courses_taken self row")
    case False
    then show ?thesis
      by (simp only: available_loop_step Cons.IH) simp
  next
    case True
    show ?thesis
    proof (cases "py_int (str (snd (snd row)))")
      case (Inl e)
      then show ?thesis
        using True by (simp only: available_loop_step) auto
    next
      case (Inr n)
      then show ?thesis
        using True by (simp only: available_loop_step Cons.IH) (simp add: entry_of_def)
    qed
  qed
qed

lemma get_available_courses_eq:
  "get_available_courses student_id self =
     available_loop student_id (fst (get_courses_taken student_id self))
       (select_courses (g self)) [] self"
  by (simp add: get_available_courses_def query_def get_courses_taken_eq)




lemma get_professor_workload_eq:
  "get_professor_workload self = (map workload_row (select_workload (g self)), self)"
  by (simp add: get_professor_workload_def query_def)

lemma set_join5:
  "set [(b, d, e). a \<leftarrow> subjects G p1 o1, b \<leftarrow> objects G a p2, c \<leftarrow> objects G a p3,
                   d \<leftarrow> objects G c p4, e \<leftarrow> subjects G p5 a] =
     {(b, d, e). \<exists>a c. (a, p1, o1) \<in> set G \<and> (a, p2, b) \<in> set G \<and> (a, p3, c) \<in> set G \<and>
                        (c, p4, d) \<in> set G \<and> (e, p5, a) \<in> set G}"
  by (simp add: set_subjects set_objects_eq) blast

lemma group_key_image:
  "group_key ` {(b, d, e). Q b d e} = {(b, d). \<exists>e. Q b d e}"
  by (force simp: group_key_def)

lemma group_keys_of_solutions:
  "group_key ` set (workload_solutions G) = workload_groups G"
  unfolding workload_solutions_def workload_groups_def set_join5 group_key_image
  by blast

lemma set_order_by_desc: "set (order_by_desc rows) = set rows"
  by (simp add: order_by_desc_def)

lemma distinct_order_by_desc: "distinct (order_by_desc rows) = distinct rows"
  by (simp add: order_by_desc_def)

lemma sorted_order_by_desc:
  "sorted_wrt (\<lambda>a b. snd a \<ge> snd b) (order_by_desc rows)"
proof -
  have "sorted (map (\<lambda>row. - int (snd row)) (order_by_desc rows))"
    unfolding order_by_desc_def by (rule sorted_sort_key)
  then show ?thesis
    by (simp add: sorted_wrt_map)
qed

lemma fst_group_count: "map fst (group_count sols) = remdups (map group_key sols)"
  by (simp add: group_count_def comp_def)

lemma distinct_fst_rows: "distinct (map fst (select_workload G))"
proof -
  have d: "distinct (map fst (group_count (workload_solutions G)))"
    by (simp add: fst_group_count)
  then have "inj_on fst (set (group_count (workload_solutions G)))"
    and "distinct (group_count (workload_solutions G))"
    by (simp_all add: distinct_map)
  then show ?thesis
    unfolding select_workload_def
    by (simp add: distinct_map set_order_by_desc distinct_order_by_desc)
qed

lemma set_select_workload:
  "set (select_workload G) =
     (\<lambda>k. (k, length (filter (\<lambda>sol. group_key sol = k) (workload_solutions G))))
       ` workload_groups G"
  unfolding select_workload_def set_order_by_desc group_count_def
  by (simp add: group_keys_of_solutions[symmetric])

lemma sum_list_insort_key:
  "sum_list (map f (insort_key k x xs)) = f x + (sum_list (map f xs) :: int)"
  by (induction xs) auto

lemma sum_list_sort_key:
  "sum_list (map f (sort_key k xs)) = (sum_list (map f xs) :: int)"
  by (induction xs) (auto simp: sum_list_insort_key)

lemma sum_indicator:
  "distinct ks \<Longrightarrow>
     sum_list (map (\<lambda>k. if c = k then (1::nat) else 0) ks) = (if c \<in> set ks then 1 else 0)"
  by (induction ks) auto

lemma count_partition:
  "distinct ks \<Longrightarrow> f ` set xs \<subseteq> set ks \<Longrightarrow>
     sum_list (map (\<lambda>k. length (filter (\<lambda>x. f x = k) xs)) ks) = length xs"
proof (induction xs)
  case Nil
  show ?case by simp
next
  case (Cons a xs)
  have "sum_list (map (\<lambda>k. length (filter (\<lambda>x. f x = k) (a # xs))) ks) =
        sum_list (map (\<lambda>k. (if f a = k then 1 else 0) + length (filter (\<lambda>x. f x = k) xs)) ks)"
    by (rule arg_cong[where f=sum_list]) (rule map_cong, auto)
  also have "\<dots> = sum_list (map (\<lambda>k. if f a = k then 1 else 0) ks)
                  + sum_list (map (\<lambda>k. length (filter (\<lambda>x. f x = k) xs)) ks)"
    by (simp add: sum_list_addf)
  also have "\<dots> = 1 + length xs"
    using Cons by (simp add: sum_indicator)
  finally show ?case by simp
qed

lemma sum_group_count: "sum_list (map snd (group_count sols)) = length sols"
proof -
  have "sum_list (map snd (group_count sols)) =
        sum_list (map (\<lambda>k. length (filter (\<lambda>sol. group_key sol = k) sols))
                      (remdups (map group_key sols)))"
    by (simp add: group_count_def comp_def)
  also have "\<dots> = length sols"
    by (rule count_partition) auto
  finally show ?thesis .
qed

lemma sum_list_int: "sum_list (map (\<lambda>x. int (f x)) xs) = int (sum_list (map f xs))"
  by (induction xs) simp_all

lemma workload_sum_solutions:
  "sum_list (map courses (fst (get_professor_workload self)))
     = int (length (workload_solutions (g self)))"
proof -
  have "sum_list (map courses (fst (get_professor_workload self)))
        = sum_list (map (\<lambda>row. int (snd row)) (select_workload (g self)))"
    by (simp add: get_professor_workload_eq workload_row_def comp_def)
  also have "\<dots> = sum_list (map (\<lambda>row. int (snd row)) (group_count (workload_solutions (g self))))"
    by (simp add: select_workload_def order_by_desc_def sum_list_sort_key)
  also have "\<dots> = int (sum_list (map snd (group_count (workload_solutions (g self)))))"
    by (rule sum_list_int)
  finally show ?thesis
    by (simp add: sum_group_count)
qed

lemma length_filter_disj:
  "(\<And>x. \<not> (A x \<and> B x)) \<Longrightarrow>
     length (filter (\<lambda>x. A x \<or> B x) xs) = length (filter A xs) + length (filter B xs)"
  by (induction xs) auto

lemma count_by_key:
  "distinct ks \<Longrightarrow>
     sum_list (map (\<lambda>k. length (filter (\<lambda>t. P t \<and> key t = k) xs)) ks)
       = length (filter (\<lambda>t. P t \<and> key t \<in> set ks) xs)"
proof (induction ks)
  case Nil
  show ?case by simp
next
  case (Cons k ks)
  have "filter (\<lambda>t. P t \<and> key t \<in> set (k # ks)) xs
          = filter (\<lambda>t. (P t \<and> key t = k) \<or> (P t \<and> key t \<in> set ks)) xs"
    by (rule filter_cong) auto
  moreover have "length (filter (\<lambda>t. (P t \<and> key t = k) \<or> (P t \<and> key t \<in> set ks)) xs)
          = length (filter (\<lambda>t. P t \<and> key t = k) xs)
            + length (filter (\<lambda>t. P t \<and> key t \<in> set ks) xs)"
    using Cons.prems by (intro length_filter_disj) auto
  ultimately show ?case
    using Cons by simp
qed

lemma length_subjects:
  "length (subjects G p ob) = length (filter (\<lambda>t. fst (snd t) = p \<and> snd (snd t) = ob) G)"
  unfolding subjects_def length_map
  by (rule arg_cong[where f=length], rule filter_cong) auto

lemma length_objects:
  "length (objects G s p) = length (filter (\<lambda>t. fst (snd t) = p \<and> fst t = s) G)"
  unfolding objects_def length_map
  by (rule arg_cong[where f=length], rule filter_cong) auto

lemma distinct_subjects: "distinct G \<Longrightarrow> distinct (subjects G p ob)"
  by (auto simp: subjects_def distinct_map inj_on_def)

lemma count_subjects_over:
  assumes "distinct ks"
  shows "sum_list (map (\<lambda>k. length (subjects G p k)) ks)
           = length (filter (\<lambda>t. fst (snd t) = p \<and> snd (snd t) \<in> set ks) G)"
  unfolding length_subjects using assms by (rule count_by_key)

lemma count_objects_over:
  assumes "distinct ks"
  shows "sum_list (map (\<lambda>k. length (objects G k p)) ks)
           = length (filter (\<lambda>t. fst (snd t) = p \<and> fst t \<in> set ks) G)"
  unfolding length_objects using assms by (rule count_by_key)

lemma singleton_list: "length xs = 1 \<Longrightarrow> \<exists>x. xs = [x]"
  by (cases xs) auto

lemma solutions_per_professor:
  assumes staff: "\<forall>(e, p, a)\<in>set G. p = pT \<longrightarrow>
            length (objects G a pN) = 1 \<and> length (objects G a pW) = 1 \<and>
            (\<forall>c\<in>set (objects G a pW). length (objects G c pD) = 1)"
  shows "length [(b, d, e). b \<leftarrow> objects G a pN, c \<leftarrow> objects G a pW,
                            d \<leftarrow> objects G c pD, e \<leftarrow> subjects G pT a]
           = length (subjects G pT a)"
proof (cases "subjects G pT a = []")
  case True
  then show ?thesis
    by (simp add: length_concat comp_def)
next
  case False
  then obtain e where "e \<in> set (subjects G pT a)"
    by (cases "subjects G pT a") auto
  then have "(e, pT, a) \<in> set G"
    by (simp add: subjects_in_graph)
  with staff have l: "length (objects G a pN) = 1" "length (objects G a pW) = 1"
    "\<forall>c\<in>set (objects G a pW). length (objects G c pD) = 1"
    by auto
  from l(1) obtain b where b: "objects G a pN = [b]"
    using singleton_list by blast
  from l(2) obtain c where c: "objects G a pW = [c]"
    using singleton_list by blast
  with l(3) have "length (objects G c pD) = 1"
    by simp
  then obtain d where d: "objects G c pD = [d]"
    using singleton_list by blast
  show ?thesis
    by (simp add: b c d)
qed

lemma solutions_count:
  assumes dist: "distinct G"
    and once: "\<forall>a\<in>set (subjects G pC oC). length (objects G a pT) = 1"
    and staff: "\<forall>(e, p, a)\<in>set G. p = pT \<longrightarrow>
            e \<in> set (subjects G pC oC) \<and> a \<in> set (subjects G pP oP) \<and>
            length (objects G a pN) = 1 \<and> length (objects G a pW) = 1 \<and>
            (\<forall>c\<in>set (objects G a pW). length (objects G c pD) = 1)"
  shows "length [(b, d, e). a \<leftarrow> subjects G pP oP, b \<leftarrow> objects G a pN,
                            c \<leftarrow> objects G a pW, d \<leftarrow> objects G c pD, e \<leftarrow> subjects G pT a]
           = length (subjects G pC oC)"
proof -
  let ?taught = "filter (\<lambda>t. fst (snd t) = pT) G"
  have staff': "\<forall>(e, p, a)\<in>set G. p = pT \<longrightarrow>
            length (objects G a pN) = 1 \<and> length (objects G a pW) = 1 \<and>
            (\<forall>c\<in>set (objects G a pW). length (objects G c pD) = 1)"
    using staff by blast
  have "length [(b, d, e). a \<leftarrow> subjects G pP oP, b \<leftarrow> objects G a pN,
                            c \<leftarrow> objects G a pW, d \<leftarrow> objects G c pD, e \<leftarrow> subjects G pT a]
        = sum_list (map (\<lambda>a. length [(b, d, e). b \<leftarrow> objects G a pN, c \<leftarrow> objects G a pW,
                            d \<leftarrow> objects G c pD, e \<leftarrow> subjects G pT a]) (subjects G pP oP))"
    by (simp add: length_concat comp_def)
  also have "\<dots> = sum_list (map (\<lambda>a. length (subjects G pT a)) (subjects G pP oP))"
    by (simp only: solutions_per_professor[OF staff'])
  also have "\<dots> = length (filter (\<lambda>t. fst (snd t) = pT \<and> snd (snd t) \<in> set (subjects G pP oP)) G)"
    by (rule count_subjects_over[OF distinct_subjects[OF dist]])
  also have "\<dots> = length ?taught"
    by (rule arg_cong[where f=length], rule filter_cong) (use staff in auto)
  finally have left: "length [(b, d, e). a \<leftarrow> subjects G pP oP, b \<leftarrow> objects G a pN,
                            c \<leftarrow> objects G a pW, d \<leftarrow> objects G c pD, e \<leftarrow> subjects G pT a]
        = length ?taught" .
  have "length (subjects G pC oC) = sum_list (map (\<lambda>a. 1) (subjects G pC oC))"
    by (simp add: sum_list_triv)
  also have "\<dots> = sum_list (map (\<lambda>a. length (objects G a pT)) (subjects G pC oC))"
    by (rule arg_cong[where f=sum_list], rule map_cong) (use once in auto)
  also have "\<dots> = length (filter (\<lambda>t. fst (snd t) = pT \<and> fst t \<in> set (subjects G pC oC)) G)"
    by (rule count_objects_over[OF distinct_subjects[OF dist]])
  also have "\<dots> = length ?taught"
    by (rule arg_cong[where f=length], rule filter_cong) (use staff in auto)
  finally show ?thesis
    using left by simp
qed

lemma card_all_courses:
  "distinct G \<Longrightarrow> card (all_courses G) = length (subjects G rdf_type (onto ''Course''))"
  unfolding all_courses_def set_subjects[symmetric]
  by (simp add: distinct_card distinct_subjects)

lemma staffed_solutions:
  assumes "staffed G"
  shows "length (workload_solutions G) = card (all_courses G)"
proof -
  have "length (workload_solutions G) = length (subjects G rdf_type (onto ''Course''))"
    unfolding workload_solutions_def
    by (rule solutions_count) (use assms in \<open>simp_all add: staffed_def\<close>)
  then show ?thesis
    using assms by (simp add: card_all_courses staffed_def)
qed

lemma get_available_courses_frame: "snd (get_available_courses student_id self) = self"
  by (simp add: get_available_courses_eq available_loop_eq)

lemma get_course_info_frame: "snd (get_course_info course_code self) = self"
  by (simp add: get_course_info_eq split: list.splits sum.splits)

lemma invoke_frame: "snd (invoke c self) = self"
  by (cases c)
    (simp_all add: get_courses_taken_eq get_prerequisites_eq get_direct_prerequisites_eq
      can_enroll_frame get_available_courses_frame get_professor_workload_eq
      get_course_info_frame)

lemma run_frame: "snd (run calls self) = self"
proof (induction calls arbitrary: self)
  case Nil
  show ?case by simp
next
  case (Cons c calls)
  obtain a where a: "invoke c self = (a, self)"
    using invoke_frame[of c self] by (metis prod.collapse)
  obtain answers where r: "run calls self = (answers, self)"
    using Cons.IH[of self] by (metis prod.collapse)
  show ?case
    by (simp add: a r)
qed

section \<open>The example catalogue, evaluated\<close>

lemma g_demo: "g demo = demo_triples"
  unfolding demo_def init_def by code_simp



section \<open>Eligibility\<close>




section \<open>Prerequisites\<close>




text \<open>
  Claim C5. For every course code, the codes returned by \<^verbatim>\<open>get_prerequisites\<close>
  include all the codes returned by \<^verbatim>\<open>get_direct_prerequisites\<close>.
\<close>

theorem transitive_superset_of_direct:
  "set (fst (get_direct_prerequisites course_code self))
     \<subseteq> set (fst (get_prerequisites course_code self))"
  using direct_subset_transitive[of "g self" course_code]
  by (simp add: get_prerequisites_eq get_direct_prerequisites_eq
      set_select_prerequisites set_select_direct_prerequisites image_mono)

section \<open>Course information\<close>









section \<open>Available courses\<close>







section \<open>Professor workload\<close>

lemma demo_workload:
  "select_workload demo_triples =
     [((Literal ''Ada'' Plain, Literal ''CS'' Plain), 2),
      ((Literal ''Bob'' Plain, Literal ''CS'' Plain), 1)]"
  by code_simp

lemma demo_staffed: "staffed demo_triples"
  by code_simp

lemma demo_course_count: "length (subjects demo_triples rdf_type (onto ''Course'')) = 3"
  by code_simp

text \<open>
  Claim C6. The list returned by \<^verbatim>\<open>get_professor_workload\<close> is in descending order
  of the course count and has one entry for each group, a pair of professor name and
  department name that occurs in a solution of the query; the count of an entry is the
  number of solutions in its group.
\<close>

theorem workload_sorted_by_group:
  "sorted_wrt (\<ge>) (map courses (fst (get_professor_workload self)))
   \<and> fst (get_professor_workload self) = map workload_row (select_workload (g self))
   \<and> distinct (map fst (select_workload (g self)))
   \<and> fst ` set (select_workload (g self)) = workload_groups (g self)
   \<and> (\<forall>row\<in>set (select_workload (g self)).
         snd row = length (filter (\<lambda>sol. group_key sol = fst row) (workload_solutions (g self))))"
proof (intro conjI)
  have "sorted_wrt (\<lambda>a b. snd a \<ge> snd b) (select_workload (g self))"
    unfolding select_workload_def by (rule sorted_order_by_desc)
  then show "sorted_wrt (\<ge>) (map courses (fst (get_professor_workload self)))"
    by (simp add: get_professor_workload_eq sorted_wrt_map workload_row_def)
  show "fst (get_professor_workload self) = map workload_row (select_workload (g self))"
    by (simp add: get_professor_workload_eq)
  show "distinct (map fst (select_workload (g self)))"
    by (rule distinct_fst_rows)
  show "fst ` set (select_workload (g self)) = workload_groups (g self)"
    by (simp add: set_select_workload image_image)
  show "\<forall>row\<in>set (select_workload (g self)).
         snd row = length (filter (\<lambda>sol. group_key sol = fst row) (workload_solutions (g self)))"
    by (auto simp: set_select_workload)
qed

theorem workload_sorted_by_group_witness:
  "map courses (fst (get_professor_workload demo)) = [2, 1]
   \<and> sorted_wrt (\<ge>) (map courses (fst (get_professor_workload demo)))
   \<and> distinct (map fst (select_workload (g demo)))
   \<and> ((Literal ''Ada'' Plain, Literal ''CS'' Plain), 2) \<in> set (select_workload (g demo))
   \<and> 2 = length (filter (\<lambda>sol. group_key sol = (Literal ''Ada'' Plain, Literal ''CS'' Plain))
                    (workload_solutions (g demo)))"
proof -
  note inst = workload_sorted_by_group[of demo]
  have row: "((Literal ''Ada'' Plain, Literal ''CS'' Plain), 2) \<in> set (select_workload (g demo))"
    by (simp add: g_demo demo_workload)
  from inst have "\<forall>row\<in>set (select_workload (g demo)).
         snd row = length (filter (\<lambda>sol. group_key sol = fst row) (workload_solutions (g demo)))"
    by blast
  from bspec[OF this row]
  have count: "2 = length (filter (\<lambda>sol. group_key sol = (Literal ''Ada'' Plain, Literal ''CS'' Plain))
                    (workload_solutions (g demo)))"
    by simp
  have "map courses (fst (get_professor_workload demo)) = [2, 1]"
    using inst by (simp add: g_demo demo_workload workload_row_def)
  with inst row count show ?thesis
    by blast
qed

text \<open>
  Claim C4, as amended. The counts returned by \<^verbatim>\<open>get_professor_workload\<close> add up
  to the number of solutions of the workload query. They add up to the number of
  courses of the graph when staffing is complete: every course has exactly one
  \<^verbatim>\<open>taughtBy\<close> professor, only courses are taught, and every teaching professor is
  typed \<^verbatim>\<open>Professor\<close> and has exactly one name and exactly one department with
  exactly one name.
\<close>

theorem workload_sum:
  "sum_list (map courses (fst (get_professor_workload self)))
     = int (length (workload_solutions (g self)))
   \<and> (staffed (g self) \<longrightarrow>
        sum_list (map courses (fst (get_professor_workload self)))
          = int (card (all_courses (g self))))"
  by (simp add: workload_sum_solutions staffed_solutions)

theorem workload_sum_witness:
  "staffed (g demo)
   \<and> sum_list (map courses (fst (get_professor_workload demo))) = int (card (all_courses (g demo)))
   \<and> card (all_courses (g demo)) = 3"
proof -
  have s: "staffed (g demo)"
    by (simp only: g_demo demo_staffed)
  then have "distinct (g demo)"
    by (simp add: staffed_def)
  then have "card (all_courses (g demo)) = 3"
    by (simp add: card_all_courses g_demo demo_course_count)
  with s workload_sum[of demo] show ?thesis
    by blast
qed

text \<open>The claim as stated, for every graph, fails when a course is taught by nobody:
  two courses, and counts that add up to one.\<close>

theorem workload_sum_untaught:
  "sum_list (map courses (fst (get_professor_workload untaught_course))) = 1
   \<and> card (all_courses (g untaught_course)) = 2"
proof -
  have "sum_list (map courses (fst (get_professor_workload untaught_course))) = 1"
    by code_simp
  moreover have "card (set (subjects (g untaught_course) rdf_type (onto ''Course''))) = 2"
    by code_simp
  ultimately show ?thesis
    by (simp add: all_courses_def set_subjects)
qed

section \<open>The queries read and never write\<close>

text \<open>
  Claim C8. Every query method leaves the graph as it was: after one call, and after
  any sequence of calls, the checker holds the triples it held before.
\<close>

theorem queries_leave_graph:
  "g (snd (invoke c self)) = g self \<and> g (snd (run calls self)) = g self"
  by (simp add: invoke_frame run_frame)

end
